theory Spec2Isabelle
  imports Complex_Main "HOL-Library.Sublist"
begin

section \<open>The chat wrapper of \<^verbatim>\<open>src/chatbot/model.py\<close>\<close>

text \<open>
  The class \<^verbatim>\<open>AIChat\<close> keeps the encoded dialogue in \<^verbatim>\<open>self.chat_history_ids\<close>
  (a tensor of shape \<^verbatim>\<open>[1, n]\<close>, or \<^verbatim>\<open>None\<close> before the first turn) and calls two
  external collaborators: the tokenizer and the language model's \<^verbatim>\<open>generate\<close>.
  A tensor of shape \<^verbatim>\<open>[1, n]\<close> is a list of \<open>n\<close> token ids; \<^verbatim>\<open>shape[1]\<close> is its length.
  Python integers are unbounded, so every size the code computes is an \<open>int\<close>.
\<close>

subsection \<open>Data\<close>

type_synonym token = int

text \<open>An exception raised inside the external generation call, with its message.\<close>

datatype error = GenerationError string

text \<open>
  The tokenizer object: \<^verbatim>\<open>encode(text, add_special_tokens)\<close>,
  \<^verbatim>\<open>decode(ids, skip_special_tokens)\<close> and the attribute \<^verbatim>\<open>eos_token_id\<close>.
\<close>

record tokenizer =
  encode :: "string \<Rightarrow> bool \<Rightarrow> token list"
  decode :: "token list \<Rightarrow> bool \<Rightarrow> string"
  eos_token_id :: token

text \<open>
  The keyword arguments of \<^verbatim>\<open>self.model.generate\<close> (lines 72 to 83). The float
  literals of the source are carried as the decimal numbers they are written as; the
  wrapper does no arithmetic on them.
\<close>

record generation_kwargs =
  max_length :: int
  pad_token_id :: token
  no_repeat_ngram_size :: int
  do_sample :: bool
  top_k :: int
  top_p :: rat
  temperature :: rat
  min_length :: int
  repetition_penalty :: rat
  length_penalty :: rat
  early_stopping :: bool
  num_return_sequences :: int

text \<open>
  The generation call: it returns the output ids or raises. Sampling makes it differ from
  call to call, so every call of \<^verbatim>\<open>generate_response\<close> is given the capability it runs
  against.
\<close>

type_synonym generate = "token list \<Rightarrow> generation_kwargs \<Rightarrow> error + token list"

text \<open>The two attributes of an \<^verbatim>\<open>AIChat\<close> instance that its methods read and write.\<close>

record AIChat =
  chat_history_ids :: "token list option"
  max_history_tokens :: int

subsection \<open>Python slicing\<close>

text \<open>
  \<^verbatim>\<open>xs[start:]\<close>: a negative start counts from the end and is clipped at the front,
  a start beyond the end gives the empty sequence. Note that \<^verbatim>\<open>xs[-0:]\<close> is \<^verbatim>\<open>xs[0:]\<close>.
\<close>

definition slice_from :: "int \<Rightarrow> 'a list \<Rightarrow> 'a list" where
  "slice_from start xs =
     (let n = int (length xs);
          i = (if start < 0 then max (n + start) 0 else min start n)
      in drop (nat i) xs)"

subsection \<open>The methods\<close>

text \<open>\<^verbatim>\<open>__init__\<close>, lines 35 and 36.\<close>

definition AIChat_init :: AIChat where
  "AIChat_init = \<lparr>chat_history_ids = None, max_history_tokens = 1024\<rparr>"

text \<open>Line 51: \<^verbatim>\<open>f"User: {user_input}\nAssistant:"\<close>.\<close>

definition formatted_input :: "string \<Rightarrow> string" where
  "formatted_input user_input = ''User: '' @ user_input @ [CHR 0x0A] @ ''Assistant:''"

text \<open>
  Lines 59 to 66: the history is cut (the cut is written back to
  \<^verbatim>\<open>self.chat_history_ids\<close>) and put in front of the new input. The result is the
  instance as line 66 leaves it and the value of \<^verbatim>\<open>inputs\<close> after line 66.
\<close>

definition manage_window :: "AIChat \<Rightarrow> token list \<Rightarrow> AIChat \<times> token list" where
  "manage_window self inputs =
     (case chat_history_ids self of
        None \<Rightarrow> (self, inputs)
      | Some history \<Rightarrow>
          (let combined_length = int (length history) + int (length inputs) in
           if combined_length > max_history_tokens self then
             (let history_to_keep = max_history_tokens self - int (length inputs);
                  kept = slice_from (- history_to_keep) history
              in (self\<lparr>chat_history_ids := Some kept\<rparr>, kept @ inputs))
           else (self, history @ inputs)))"

text \<open>Lines 72 to 83.\<close>

definition generate_kwargs :: "tokenizer \<Rightarrow> int \<Rightarrow> generation_kwargs" where
  "generate_kwargs tok max_len =
     \<lparr>max_length = max_len,
      pad_token_id = eos_token_id tok,
      no_repeat_ngram_size = 2,
      do_sample = True,
      top_k = 50,
      top_p = 0.92,
      temperature = 0.85,
      min_length = 10,
      repetition_penalty = 1.2,
      length_penalty = 1.0,
      early_stopping = True,
      num_return_sequences = 1\<rparr>"

text \<open>The default of the parameter \<^verbatim>\<open>max_length=1000\<close> (line 38).\<close>

definition max_length_arg :: "int option \<Rightarrow> int" where
  "max_length_arg given = (case given of None \<Rightarrow> 1000 | Some m \<Rightarrow> m)"

text \<open>
  \<^verbatim>\<open>generate_response(self, user_input, max_length=1000)\<close>, lines 38 to 92. The result is
  the returned text or the exception that left the method, and the instance afterwards.
  An exception of \<^verbatim>\<open>generate\<close> is not caught, so the method ends at line 70 with the
  instance as line 66 left it.
\<close>

definition generate_response ::
  "tokenizer \<Rightarrow> generate \<Rightarrow> AIChat \<Rightarrow> string \<Rightarrow> int option \<Rightarrow> (error + string) \<times> AIChat" where
  "generate_response tok gen self user_input given =
     (let encoded = encode tok (formatted_input user_input) True;
          (self1, inputs) = manage_window self encoded
      in case gen inputs (generate_kwargs tok (max_length_arg given)) of
           Inl e \<Rightarrow> (Inl e, self1)
         | Inr ids \<Rightarrow>
             (Inr (decode tok (slice_from (int (length inputs)) ids) True),
              self1\<lparr>chat_history_ids := Some ids\<rparr>))"

text \<open>\<^verbatim>\<open>reset_chat\<close>, line 99.\<close>

definition reset_chat :: "AIChat \<Rightarrow> AIChat" where
  "reset_chat self = self\<lparr>chat_history_ids := None\<rparr>"

subsection \<open>Names for the intermediate values of a call\<close>

text \<open>The encoded new turn (line 54), the sequence handed to the model (line 71), and
  the part of the old history that is still in front of it.\<close>

definition new_input_tokens :: "tokenizer \<Rightarrow> string \<Rightarrow> token list" where
  "new_input_tokens tok user_input = encode tok (formatted_input user_input) True"

definition model_input :: "tokenizer \<Rightarrow> AIChat \<Rightarrow> string \<Rightarrow> token list" where
  "model_input tok self user_input = snd (manage_window self (new_input_tokens tok user_input))"

definition retained_history :: "AIChat \<Rightarrow> token list \<Rightarrow> token list option" where
  "retained_history self inputs = chat_history_ids (fst (manage_window self inputs))"

text \<open>The last \<open>k\<close> elements of a sequence, for a count \<open>k\<close> that may be zero or negative
  (then there are none).\<close>

definition last_tokens :: "int \<Rightarrow> 'a list \<Rightarrow> 'a list" where
  "last_tokens k xs = drop (length xs - nat k) xs"

text \<open>The test of lines 59 and 62 together: there is a history and it does not fit in
  front of the new input.\<close>

definition trimming_occurs :: "AIChat \<Rightarrow> token list \<Rightarrow> bool" where
  "trimming_occurs self inputs =
     (case chat_history_ids self of
        None \<Rightarrow> False
      | Some history \<Rightarrow> int (length history) + int (length inputs) > max_history_tokens self)"

subsection \<open>Sample collaborators\<close>

text \<open>
  A tokenizer with one token per character, a generation capability that fills the
  sequence up to \<^verbatim>\<open>max_length\<close> and emits one token when the input is already that
  long, one that stops after a single new token, and one that always raises.
\<close>

definition char_tokenizer :: tokenizer where
  "char_tokenizer =
     \<lparr>encode = (\<lambda>text special. map of_char text),
      decode = (\<lambda>ids skip. map char_of ids),
      eos_token_id = 0\<rparr>"

definition fill_generate :: generate where
  "fill_generate inputs kw =
     Inr (inputs @ replicate (max 1 (nat (max_length kw) - length inputs)) 0)"

definition one_token_generate :: generate where
  "one_token_generate inputs kw = Inr (inputs @ [33])"

definition failing_generate :: generate where
  "failing_generate inputs kw = Inl (GenerationError ''out of memory'')"

text \<open>Sample texts, and the instance after a first turn: once with a one-token reply to
  \<^verbatim>\<open>"hi"\<close>, once with a reply that runs up to the default \<^verbatim>\<open>max_length\<close>.\<close>

definition story_message :: string where
  "story_message = ''Tell me a story about a parrot''"

definition long_input :: "nat \<Rightarrow> string" where
  "long_input n = replicate n CHR ''a''"

definition after_greeting :: AIChat where
  "after_greeting = snd (generate_response char_tokenizer one_token_generate AIChat_init ''hi'' None)"

definition after_story :: AIChat where
  "after_story = snd (generate_response char_tokenizer fill_generate AIChat_init story_message None)"

text \<open>The instance after the one-token first turn and a second call, with a text of 1027
  characters, whose generation raises.\<close>

definition after_failed_long_turn :: AIChat where
  "after_failed_long_turn =
     snd (generate_response char_tokenizer failing_generate after_greeting (long_input 1027) None)"

section \<open>Basic facts\<close>

lemma slice_from_nonneg: "0 \<le> start \<Longrightarrow> slice_from start xs = drop (nat start) xs"
  by (simp add: slice_from_def Let_def min_def)

lemma slice_from_length [simp]: "slice_from (int n) xs = drop n xs"
  by (simp add: slice_from_nonneg)

lemma slice_from_zero [simp]: "slice_from 0 xs = xs"
  by (simp add: slice_from_def)

lemma slice_from_neg:
  "start < 0 \<Longrightarrow> slice_from start xs = last_tokens (- start) xs"
proof -
  assume neg: "start < 0"
  have "nat (max (int (length xs) + start) 0) = length xs - nat (- start)"
    using neg by arith
  then show ?thesis
    using neg by (simp add: slice_from_def last_tokens_def Let_def)
qed

lemma suffix_slice_from: "suffix (slice_from start xs) xs"
  by (simp add: slice_from_def Let_def suffix_drop)

section \<open>The window step and the shape of a call\<close>

lemma manage_window_None:
  "chat_history_ids self = None \<Longrightarrow> manage_window self inputs = (self, inputs)"
  by (simp add: manage_window_def)

lemma manage_window_fits:
  "chat_history_ids self = Some h \<Longrightarrow>
   int (length h) + int (length inputs) \<le> max_history_tokens self \<Longrightarrow>
   manage_window self inputs = (self, h @ inputs)"
  by (simp add: manage_window_def)

lemma manage_window_cut:
  "chat_history_ids self = Some h \<Longrightarrow>
   int (length h) + int (length inputs) > max_history_tokens self \<Longrightarrow>
   manage_window self inputs =
     (self\<lparr>chat_history_ids := Some (slice_from (int (length inputs) - max_history_tokens self) h)\<rparr>,
      slice_from (int (length inputs) - max_history_tokens self) h @ inputs)"
  by (simp add: manage_window_def Let_def)

lemma manage_window_untouched:
  "\<not> trimming_occurs self inputs \<Longrightarrow> fst (manage_window self inputs) = self"
  by (auto simp: trimming_occurs_def manage_window_def split: option.splits)

lemma manage_window_max [simp]:
  "max_history_tokens (fst (manage_window self inputs)) = max_history_tokens self"
  by (simp add: manage_window_def Let_def split: option.splits)

lemma manage_window_state:
  "fst (manage_window self inputs) = self\<lparr>chat_history_ids := retained_history self inputs\<rparr>"
  by (simp add: retained_history_def manage_window_def Let_def split: option.splits)

lemma retained_history_None [simp]:
  "chat_history_ids self = None \<Longrightarrow> retained_history self inputs = None"
  by (simp add: retained_history_def manage_window_def)

lemma retained_history_Some:
  "chat_history_ids self = Some h \<Longrightarrow>
   retained_history self inputs =
     Some (if int (length h) + int (length inputs) > max_history_tokens self
           then slice_from (int (length inputs) - max_history_tokens self) h else h)"
  by (simp add: retained_history_def manage_window_def Let_def)

lemma manage_window_inputs:
  "snd (manage_window self inputs) =
     (case retained_history self inputs of None \<Rightarrow> inputs | Some kept \<Rightarrow> kept @ inputs)"
  by (simp add: retained_history_def manage_window_def Let_def split: option.splits)

lemma retained_suffix:
  "chat_history_ids self = Some h \<Longrightarrow> \<exists>kept. retained_history self inputs = Some kept \<and> suffix kept h"
  by (simp add: retained_history_Some suffix_slice_from)

text \<open>The cut with a positive count: exactly the last \<open>history_to_keep\<close> tokens.\<close>

lemma cut_positive:
  assumes "chat_history_ids self = Some h"
      and "int (length h) + int (length inputs) > max_history_tokens self"
      and "int (length inputs) < max_history_tokens self"
  shows "retained_history self inputs = Some (last_tokens (max_history_tokens self - int (length inputs)) h)"
    and "int (length (last_tokens (max_history_tokens self - int (length inputs)) h)) = max_history_tokens self - int (length inputs)"
proof -
  show "retained_history self inputs = Some (last_tokens (max_history_tokens self - int (length inputs)) h)"
    using assms by (simp add: retained_history_Some slice_from_neg)
  show "int (length (last_tokens (max_history_tokens self - int (length inputs)) h)) = max_history_tokens self - int (length inputs)"
    using assms by (simp add: last_tokens_def)
qed

lemma model_input_bound:
  assumes "int (length (new_input_tokens tok u)) < max_history_tokens self"
  shows "int (length (model_input tok self u)) \<le> max_history_tokens self"
proof (cases "chat_history_ids self")
  case None
  then show ?thesis using assms by (simp add: model_input_def manage_window_None)
next
  case (Some h)
  show ?thesis
  proof (cases "int (length h) + int (length (new_input_tokens tok u)) > max_history_tokens self")
    case True
    from cut_positive[OF Some True assms] show ?thesis
      by (simp add: model_input_def manage_window_inputs)
  next
    case False
    then show ?thesis using Some by (simp add: model_input_def manage_window_fits)
  qed
qed

lemma generate_response_eq:
  "generate_response tok gen self u given =
     (case gen (model_input tok self u) (generate_kwargs tok (max_length_arg given)) of
        Inl e \<Rightarrow> (Inl e, self\<lparr>chat_history_ids := retained_history self (new_input_tokens tok u)\<rparr>)
      | Inr ids \<Rightarrow>
          (Inr (decode tok (drop (length (model_input tok self u)) ids) True),
           self\<lparr>chat_history_ids := Some ids\<rparr>))"
proof -
  obtain self1 inputs where mw: "manage_window self (new_input_tokens tok u) = (self1, inputs)"
    by (cases "manage_window self (new_input_tokens tok u)")
  have s1: "self1 = self\<lparr>chat_history_ids := retained_history self (new_input_tokens tok u)\<rparr>"
    using manage_window_state[of self "new_input_tokens tok u"] mw by simp
  have inp: "model_input tok self u = inputs"
    using mw by (simp add: model_input_def)
  show ?thesis
    unfolding generate_response_def new_input_tokens_def[symmetric] Let_def mw inp
    by (simp add: s1 split: sum.splits)
qed

lemma generate_response_max [simp]:
  "max_history_tokens (snd (generate_response tok gen self u given)) = max_history_tokens self"
  by (simp add: generate_response_eq split: sum.splits)

section \<open>Evaluating the sample turns\<close>

lemma model_input_fresh:
  "chat_history_ids self = None \<Longrightarrow> model_input tok self u = new_input_tokens tok u"
  by (simp add: model_input_def manage_window_None)

lemma model_input_eq:
  "model_input tok self u =
     (case retained_history self (new_input_tokens tok u) of
        None \<Rightarrow> new_input_tokens tok u
      | Some kept \<Rightarrow> kept @ new_input_tokens tok u)"
  by (simp add: model_input_def manage_window_inputs)

lemma char_tokens_length [simp]:
  "length (new_input_tokens char_tokenizer u) = length u + 17"
  by (simp add: new_input_tokens_def char_tokenizer_def formatted_input_def)

lemma story_message_length [simp]: "length story_message = 30"
  by (simp add: story_message_def)

lemma long_input_length [simp]: "length (long_input n) = n"
  by (simp add: long_input_def)

lemma AIChat_init_simps [simp]:
  "chat_history_ids AIChat_init = None" "max_history_tokens AIChat_init = 1024"
  by (simp_all add: AIChat_init_def)

lemma after_greeting_history:
  "chat_history_ids after_greeting = Some (new_input_tokens char_tokenizer ''hi'' @ [33])"
  by (simp add: after_greeting_def generate_response_eq model_input_fresh one_token_generate_def)

lemma after_greeting_max [simp]: "max_history_tokens after_greeting = 1024"
  by (simp add: after_greeting_def)

lemma after_story_history:
  "chat_history_ids after_story = Some (new_input_tokens char_tokenizer story_message @ replicate 953 0)"
  by (simp add: after_story_def generate_response_eq model_input_fresh fill_generate_def
        generate_kwargs_def max_length_arg_def)

lemma after_story_max [simp]: "max_history_tokens after_story = 1024"
  by (simp add: after_story_def)

lemma after_failed_long_turn_history:
  "chat_history_ids after_failed_long_turn = Some []"
  by (simp add: after_failed_long_turn_def generate_response_eq failing_generate_def
        retained_history_Some after_greeting_history slice_from_nonneg)

lemma after_failed_long_turn_max [simp]: "max_history_tokens after_failed_long_turn = 1024"
  by (simp add: after_failed_long_turn_def)

section \<open>When the history changes, and what is left of it\<close>

lemma history_changed_only_when_trimming:
  "retained_history self inputs \<noteq> chat_history_ids self \<Longrightarrow> trimming_occurs self inputs"
proof (rule ccontr)
  assume changed: "retained_history self inputs \<noteq> chat_history_ids self"
    and "\<not> trimming_occurs self inputs"
  then have "fst (manage_window self inputs) = self" by (rule_tac manage_window_untouched)
  with changed show False by (simp add: retained_history_def)
qed

lemma trimming_changes_history_when_input_short:
  assumes "trimming_occurs self inputs" and "int (length inputs) < max_history_tokens self"
  shows "retained_history self inputs \<noteq> chat_history_ids self"
proof -
  from assms(1) obtain h where h: "chat_history_ids self = Some h"
    and over: "int (length h) + int (length inputs) > max_history_tokens self"
    by (auto simp: trimming_occurs_def split: option.splits)
  from cut_positive[OF h over assms(2)]
  have "retained_history self inputs = Some (last_tokens (max_history_tokens self - int (length inputs)) h)"
    and "int (length (last_tokens (max_history_tokens self - int (length inputs)) h))
           = max_history_tokens self - int (length inputs)"
    by simp_all
  moreover have "int (length h) \<noteq> max_history_tokens self - int (length inputs)"
    using over by simp
  ultimately show ?thesis using h by auto
qed

lemma cut_zero:
  "chat_history_ids self = Some h \<Longrightarrow> int (length inputs) = max_history_tokens self \<Longrightarrow>
   retained_history self inputs = Some h"
  by (simp add: retained_history_Some)

lemma cut_negative:
  "chat_history_ids self = Some h \<Longrightarrow> int (length inputs) > max_history_tokens self \<Longrightarrow>
   retained_history self inputs = Some (drop (nat (int (length inputs) - max_history_tokens self)) h)"
  by (simp add: retained_history_Some slice_from_nonneg)

lemma length_slice_from:
  "int (length (slice_from start xs)) =
     (if start < 0 then min (int (length xs)) (- start) else max 0 (int (length xs) - start))"
  by (simp add: slice_from_def Let_def) arith

lemma retained_nonempty_iff:
  assumes "chat_history_ids self = Some h"
      and "retained_history self inputs = Some kept"
  shows "kept \<noteq> [] \<longleftrightarrow> h \<noteq> [] \<and> int (length inputs) < max_history_tokens self + int (length h)"
proof -
  have kept: "kept = (if int (length h) + int (length inputs) > max_history_tokens self
           then slice_from (int (length inputs) - max_history_tokens self) h else h)"
    using assms by (simp add: retained_history_Some)
  have len: "int (length kept) =
      (if int (length h) + int (length inputs) > max_history_tokens self
       then (if int (length inputs) - max_history_tokens self < 0
             then min (int (length h)) (- (int (length inputs) - max_history_tokens self))
             else max 0 (int (length h) - (int (length inputs) - max_history_tokens self)))
       else int (length h))"
    unfolding kept by (simp only: length_slice_from if_distrib[of "\<lambda>x. int (length x)"])
  define a where "a = int (length h)"
  define b where "b = int (length kept)"
  have nonneg: "0 \<le> a" by (simp add: a_def)
  have b: "b = (if a + int (length inputs) > max_history_tokens self
       then (if int (length inputs) - max_history_tokens self < 0
             then min a (- (int (length inputs) - max_history_tokens self))
             else max 0 (a - (int (length inputs) - max_history_tokens self)))
       else a)"
    using len by (simp only: a_def b_def)
  have "0 < b \<longleftrightarrow> 0 < a \<and> int (length inputs) < max_history_tokens self + a"
    unfolding b using nonneg by (cases "a + int (length inputs) > max_history_tokens self") auto
  then show ?thesis by (simp add: a_def b_def)
qed

lemma stored_history_nonempty:
  assumes "gen (model_input tok self u) (generate_kwargs tok (max_length_arg given))
             = Inr (model_input tok self u @ continuation)"
      and "new_input_tokens tok u \<noteq> []"
  shows "\<exists>ids. chat_history_ids (snd (generate_response tok gen self u given)) = Some ids \<and> ids \<noteq> []"
proof -
  have "model_input tok self u \<noteq> []"
    using assms(2) by (simp add: model_input_eq split: option.splits)
  then show ?thesis using assms(1) by (simp add: generate_response_eq)
qed

section \<open>The window bound (claim C1)\<close>

text \<open>
  Claim C1, as amended. The code bounds the sequence it hands to the model, not the
  sequence it stores. For a \<^verbatim>\<open>generate_response\<close> call whose encoded new turn has fewer
  than \<^verbatim>\<open>max_history_tokens\<close> tokens, the model input has at most
  \<^verbatim>\<open>max_history_tokens\<close> tokens; when the generation call returns the model input
  followed by a continuation, the stored history is exactly that result, so it has at
  most \<^verbatim>\<open>max_history_tokens\<close> tokens plus the length of the continuation; and
  \<^verbatim>\<open>max_history_tokens\<close> itself is unchanged. This holds from every instance, hence
  after every sequence of calls.
\<close>

theorem model_input_window_bound:
  assumes "int (length (new_input_tokens tok user_input)) < max_history_tokens self"
      and "gen (model_input tok self user_input) (generate_kwargs tok (max_length_arg given))
             = Inr (model_input tok self user_input @ continuation)"
  shows "int (length (model_input tok self user_input)) \<le> max_history_tokens self
       \<and> chat_history_ids (snd (generate_response tok gen self user_input given))
           = Some (model_input tok self user_input @ continuation)
       \<and> (\<exists>ids. chat_history_ids (snd (generate_response tok gen self user_input given)) = Some ids
              \<and> int (length ids) \<le> max_history_tokens self + int (length continuation))
       \<and> max_history_tokens (snd (generate_response tok gen self user_input given))
           = max_history_tokens self"
proof -
  have bound: "int (length (model_input tok self user_input)) \<le> max_history_tokens self"
    using assms(1) by (rule model_input_bound)
  have stored: "chat_history_ids (snd (generate_response tok gen self user_input given))
           = Some (model_input tok self user_input @ continuation)"
    using assms(2) by (simp add: generate_response_eq)
  show ?thesis using bound stored by simp
qed

theorem model_input_window_bound_witness:
  "int (length (new_input_tokens char_tokenizer story_message)) < max_history_tokens after_story
   \<and> fill_generate (model_input char_tokenizer after_story story_message)
         (generate_kwargs char_tokenizer (max_length_arg None))
       = Inr (model_input char_tokenizer after_story story_message @ [0])
   \<and> int (length (model_input char_tokenizer after_story story_message)) \<le> max_history_tokens after_story
   \<and> chat_history_ids (snd (generate_response char_tokenizer fill_generate after_story story_message None))
       = Some (model_input char_tokenizer after_story story_message @ [0])"
proof -
  have short: "int (length (new_input_tokens char_tokenizer story_message)) < max_history_tokens after_story"
    by simp
  have len: "length (model_input char_tokenizer after_story story_message) = 1024"
    by (simp add: model_input_eq retained_history_Some after_story_history slice_from_def)
  have ok: "fill_generate (model_input char_tokenizer after_story story_message)
         (generate_kwargs char_tokenizer (max_length_arg None))
       = Inr (model_input char_tokenizer after_story story_message @ [0])"
    by (simp add: fill_generate_def len generate_kwargs_def max_length_arg_def)
  from model_input_window_bound
         [where tok = char_tokenizer and self = after_story and user_input = story_message
            and gen = fill_generate and given = None and continuation = "[0]", OF short ok]
       short ok
  show ?thesis by blast
qed

text \<open>
  The claim as written fails: with the default \<^verbatim>\<open>max_length\<close> and a generation
  capability that fills the sequence up to \<^verbatim>\<open>max_length\<close> (and emits one token when the
  input is already that long), the first turn stores 1000 tokens; in the second turn
  977 tokens of history are kept in front of the 47 new ones, the model input has 1024
  tokens and the stored result 1025.
\<close>

theorem window_bound_counterexample:
  "\<not> isl (fst (generate_response char_tokenizer fill_generate AIChat_init story_message None))
   \<and> \<not> isl (fst (generate_response char_tokenizer fill_generate after_story story_message None))
   \<and> map_option length (chat_history_ids after_story) = Some 1000
   \<and> map_option length
        (chat_history_ids (snd (generate_response char_tokenizer fill_generate after_story story_message None)))
       = Some 1025
   \<and> max_history_tokens
        (snd (generate_response char_tokenizer fill_generate after_story story_message None)) = 1024"
proof -
  have len: "length (model_input char_tokenizer after_story story_message) = 1024"
    by (simp add: model_input_eq retained_history_Some after_story_history slice_from_def)
  have ok: "fill_generate (model_input char_tokenizer after_story story_message)
         (generate_kwargs char_tokenizer (max_length_arg None))
       = Inr (model_input char_tokenizer after_story story_message @ [0])"
    by (simp add: fill_generate_def len generate_kwargs_def max_length_arg_def)
  have a: "\<not> isl (fst (generate_response char_tokenizer fill_generate AIChat_init story_message None))"
    by (simp add: generate_response_eq fill_generate_def)
  have b: "\<not> isl (fst (generate_response char_tokenizer fill_generate after_story story_message None))"
    by (simp add: generate_response_eq ok)
  have c: "map_option length (chat_history_ids after_story) = Some 1000"
    by (simp add: after_story_history)
  have d: "map_option length
        (chat_history_ids (snd (generate_response char_tokenizer fill_generate after_story story_message None)))
       = Some 1025"
    by (simp add: generate_response_eq ok len)
  show ?thesis using a b c d by simp
qed

section \<open>A failing generation call (claim C2)\<close>

text \<open>
  Claim C2, as amended. When the generation call raises, \<^verbatim>\<open>generate_response\<close> raises the
  same error and line 87 is not reached; the instance is left as line 65 left it: equal
  to the instance before the call when no cut took place (no history, or history and new
  turn fit together), and otherwise holding the cut history, which is a suffix of the
  history before the call.
\<close>

theorem failed_generation_state:
  assumes "gen (model_input tok self user_input) (generate_kwargs tok (max_length_arg given)) = Inl e"
  shows "fst (generate_response tok gen self user_input given) = Inl e
       \<and> snd (generate_response tok gen self user_input given)
           = self\<lparr>chat_history_ids := retained_history self (new_input_tokens tok user_input)\<rparr>
       \<and> (\<not> trimming_occurs self (new_input_tokens tok user_input) \<longrightarrow>
            snd (generate_response tok gen self user_input given) = self)
       \<and> (\<forall>history. chat_history_ids self = Some history \<longrightarrow>
            (\<exists>kept. chat_history_ids (snd (generate_response tok gen self user_input given)) = Some kept
               \<and> suffix kept history))"
proof -
  have st: "snd (generate_response tok gen self user_input given)
           = self\<lparr>chat_history_ids := retained_history self (new_input_tokens tok user_input)\<rparr>"
    using assms by (simp add: generate_response_eq)
  have same: "snd (generate_response tok gen self user_input given) = self"
    if "\<not> trimming_occurs self (new_input_tokens tok user_input)"
    using manage_window_untouched[OF that] st by (simp add: manage_window_state)
  have suf: "\<exists>kept. chat_history_ids (snd (generate_response tok gen self user_input given)) = Some kept
               \<and> suffix kept history" if "chat_history_ids self = Some history" for history
    using retained_suffix[OF that, of "new_input_tokens tok user_input"] st by simp
  show ?thesis using assms st same suf by (simp add: generate_response_eq)
qed

theorem failed_generation_state_witness:
  "failing_generate (model_input char_tokenizer after_greeting ''hi'')
       (generate_kwargs char_tokenizer (max_length_arg None)) = Inl (GenerationError ''out of memory'')
   \<and> \<not> trimming_occurs after_greeting (new_input_tokens char_tokenizer ''hi'')
   \<and> chat_history_ids after_greeting = Some (new_input_tokens char_tokenizer ''hi'' @ [33])
   \<and> fst (generate_response char_tokenizer failing_generate after_greeting ''hi'' None)
       = Inl (GenerationError ''out of memory'')
   \<and> snd (generate_response char_tokenizer failing_generate after_greeting ''hi'' None) = after_greeting"
proof -
  have h: "failing_generate (model_input char_tokenizer after_greeting ''hi'')
       (generate_kwargs char_tokenizer (max_length_arg None)) = Inl (GenerationError ''out of memory'')"
    by (simp add: failing_generate_def)
  have n: "\<not> trimming_occurs after_greeting (new_input_tokens char_tokenizer ''hi'')"
    by (simp add: trimming_occurs_def after_greeting_history)
  from failed_generation_state
         [where tok = char_tokenizer and self = after_greeting and user_input = "''hi''"
            and gen = failing_generate and given = None, OF h] h n after_greeting_history
  show ?thesis by blast
qed

text \<open>
  The claim as written fails: after a first turn that stored 1000 tokens, a second call
  whose generation raises leaves 977 tokens of history, not the 1000 it started with.
\<close>

theorem failed_generation_counterexample:
  "fst (generate_response char_tokenizer failing_generate after_story story_message None)
       = Inl (GenerationError ''out of memory'')
   \<and> map_option length (chat_history_ids after_story) = Some 1000
   \<and> map_option length
        (chat_history_ids (snd (generate_response char_tokenizer failing_generate after_story story_message None)))
       = Some 977
   \<and> snd (generate_response char_tokenizer failing_generate after_story story_message None) \<noteq> after_story"
proof -
  have a: "fst (generate_response char_tokenizer failing_generate after_story story_message None)
       = Inl (GenerationError ''out of memory'')"
    by (simp add: generate_response_eq failing_generate_def)
  have b: "map_option length (chat_history_ids after_story) = Some 1000"
    by (simp add: after_story_history)
  have c: "map_option length
        (chat_history_ids (snd (generate_response char_tokenizer failing_generate after_story story_message None)))
       = Some 977"
    by (simp add: generate_response_eq failing_generate_def retained_history_Some
          after_story_history slice_from_def)
  have d: "snd (generate_response char_tokenizer failing_generate after_story story_message None) \<noteq> after_story"
    using b c by auto
  show ?thesis using a b c d by simp
qed

section \<open>The cut with nothing to keep (claim C3)\<close>

text \<open>
  Claim C3 says that whenever the cut takes place, the retained history is the last
  \<^verbatim>\<open>max_history_tokens - len(new_input_tokens)\<close> tokens of the history. The lemma
  \<open>cut_positive\<close> above shows this when the new turn is shorter than
  \<^verbatim>\<open>max_history_tokens\<close>. At a new turn of exactly 1024 tokens the count is 0, the
  slice \<^verbatim>\<open>[:, -0:]\<close> is the whole tensor, and the code keeps all 20 tokens of the history
  where the last 0 tokens are none; the model input then has 1044 tokens.
\<close>

theorem zero_keep_retains_whole_history:
  "trimming_occurs after_greeting (new_input_tokens char_tokenizer (long_input 1007))
   \<and> max_history_tokens after_greeting
       - int (length (new_input_tokens char_tokenizer (long_input 1007))) = 0
   \<and> chat_history_ids after_greeting = Some (new_input_tokens char_tokenizer ''hi'' @ [33])
   \<and> retained_history after_greeting (new_input_tokens char_tokenizer (long_input 1007))
       = Some (new_input_tokens char_tokenizer ''hi'' @ [33])
   \<and> last_tokens 0 (new_input_tokens char_tokenizer ''hi'' @ [33]) = []
   \<and> length (model_input char_tokenizer after_greeting (long_input 1007)) = 1044"
proof -
  have a: "trimming_occurs after_greeting (new_input_tokens char_tokenizer (long_input 1007))"
    by (simp add: trimming_occurs_def after_greeting_history)
  have b: "retained_history after_greeting (new_input_tokens char_tokenizer (long_input 1007))
       = Some (new_input_tokens char_tokenizer ''hi'' @ [33])"
    by (rule cut_zero[OF after_greeting_history]) simp
  have c: "last_tokens 0 (new_input_tokens char_tokenizer ''hi'' @ [33]) = []"
    by (simp add: last_tokens_def)
  have d: "length (model_input char_tokenizer after_greeting (long_input 1007)) = 1044"
    by (simp add: model_input_eq b)
  show ?thesis using a b c d after_greeting_history by simp
qed

section \<open>Two consecutive turns (claim C4)\<close>

text \<open>
  Claim C4, as amended. After a successful call the stored history is the whole
  generation result. In a following successful call whose generation result starts with
  its model input, the stored history starts with the retained part of the first
  result, which is a suffix of it, followed by the encoded new turn and the continuation.
  The retained part is non-empty whenever the first result is non-empty and the encoded
  new turn has fewer than \<^verbatim>\<open>max_history_tokens\<close> tokens.
\<close>

theorem consecutive_turns:
  assumes first: "gen1 (model_input tok self u1) (generate_kwargs tok (max_length_arg given1)) = Inr ids1"
      and second: "gen2 (model_input tok (snd (generate_response tok gen1 self u1 given1)) u2)
                     (generate_kwargs tok (max_length_arg given2))
                   = Inr (model_input tok (snd (generate_response tok gen1 self u1 given1)) u2 @ continuation)"
  shows "chat_history_ids (snd (generate_response tok gen1 self u1 given1)) = Some ids1
       \<and> (\<exists>kept. retained_history (snd (generate_response tok gen1 self u1 given1)) (new_input_tokens tok u2)
                    = Some kept
              \<and> suffix kept ids1
              \<and> chat_history_ids
                  (snd (generate_response tok gen2 (snd (generate_response tok gen1 self u1 given1)) u2 given2))
                  = Some (kept @ new_input_tokens tok u2 @ continuation)
              \<and> (ids1 \<noteq> [] \<and> int (length (new_input_tokens tok u2)) < max_history_tokens self
                    \<longrightarrow> kept \<noteq> []))"
proof -
  define s1 where "s1 = snd (generate_response tok gen1 self u1 given1)"
  have h1: "chat_history_ids s1 = Some ids1"
    using first by (simp add: s1_def generate_response_eq)
  have m1: "max_history_tokens s1 = max_history_tokens self"
    by (simp add: s1_def)
  from retained_suffix[OF h1, of "new_input_tokens tok u2"]
  obtain kept where k: "retained_history s1 (new_input_tokens tok u2) = Some kept"
    and suf: "suffix kept ids1" by blast
  have inp: "model_input tok s1 u2 = kept @ new_input_tokens tok u2"
    by (simp add: model_input_eq k)
  have second': "gen2 (model_input tok s1 u2) (generate_kwargs tok (max_length_arg given2))
                   = Inr (model_input tok s1 u2 @ continuation)"
    using second unfolding s1_def .
  have st: "chat_history_ids (snd (generate_response tok gen2 s1 u2 given2))
              = Some (kept @ new_input_tokens tok u2 @ continuation)"
    using second' by (simp add: generate_response_eq inp)
  have ne: "kept \<noteq> []"
    if "ids1 \<noteq> [] \<and> int (length (new_input_tokens tok u2)) < max_history_tokens self"
    using retained_nonempty_iff[OF h1 k] that by (simp add: m1)
  show ?thesis
    unfolding s1_def[symmetric] using h1 k suf st ne by blast
qed

theorem consecutive_turns_witness:
  "one_token_generate (model_input char_tokenizer AIChat_init ''hi'')
       (generate_kwargs char_tokenizer (max_length_arg None))
     = Inr (new_input_tokens char_tokenizer ''hi'' @ [33])
   \<and> one_token_generate (model_input char_tokenizer after_greeting story_message)
       (generate_kwargs char_tokenizer (max_length_arg None))
     = Inr (model_input char_tokenizer after_greeting story_message @ [33])
   \<and> chat_history_ids after_greeting = Some (new_input_tokens char_tokenizer ''hi'' @ [33])
   \<and> (\<exists>kept. retained_history after_greeting (new_input_tokens char_tokenizer story_message) = Some kept
          \<and> suffix kept (new_input_tokens char_tokenizer ''hi'' @ [33])
          \<and> chat_history_ids
               (snd (generate_response char_tokenizer one_token_generate after_greeting story_message None))
              = Some (kept @ new_input_tokens char_tokenizer story_message @ [33])
          \<and> kept \<noteq> [])"
proof -
  have first: "one_token_generate (model_input char_tokenizer AIChat_init ''hi'')
       (generate_kwargs char_tokenizer (max_length_arg None))
     = Inr (new_input_tokens char_tokenizer ''hi'' @ [33])"
    by (simp add: one_token_generate_def model_input_fresh)
  have second: "one_token_generate
       (model_input char_tokenizer
          (snd (generate_response char_tokenizer one_token_generate AIChat_init ''hi'' None)) story_message)
       (generate_kwargs char_tokenizer (max_length_arg None))
     = Inr (model_input char_tokenizer
          (snd (generate_response char_tokenizer one_token_generate AIChat_init ''hi'' None)) story_message
          @ [33])"
    by (simp add: one_token_generate_def)
  have cond: "new_input_tokens char_tokenizer ''hi'' @ [33] \<noteq> []
      \<and> int (length (new_input_tokens char_tokenizer story_message))
          < max_history_tokens AIChat_init"
    by simp
  from consecutive_turns
         [where tok = char_tokenizer and ?gen1.0 = one_token_generate
            and ?gen2.0 = one_token_generate
            and self = AIChat_init and ?u1.0 = "''hi''" and ?u2.0 = story_message
            and ?given1.0 = None and ?given2.0 = None
            and ?ids1.0 = "new_input_tokens char_tokenizer ''hi'' @ [33]" and continuation = "[33]",
          OF first second]
       first second cond after_greeting_history
  show ?thesis
    unfolding after_greeting_def[symmetric] by blast
qed

text \<open>
  The claim as written fails in its last part: after a first turn that stored 20 tokens,
  a new turn of 1044 tokens gives \<^verbatim>\<open>history_to_keep = -20\<close>, the slice \<^verbatim>\<open>[:, 20:]\<close> of the
  history is empty, and the second stored history is the new turn and its continuation
  with nothing of the first in front.
\<close>

theorem consecutive_turns_counterexample:
  "chat_history_ids after_greeting = Some (new_input_tokens char_tokenizer ''hi'' @ [33])
   \<and> map_option length (chat_history_ids after_greeting) = Some 20
   \<and> retained_history after_greeting (new_input_tokens char_tokenizer (long_input 1027)) = Some []
   \<and> one_token_generate (model_input char_tokenizer after_greeting (long_input 1027))
        (generate_kwargs char_tokenizer (max_length_arg None))
       = Inr (model_input char_tokenizer after_greeting (long_input 1027) @ [33])
   \<and> chat_history_ids
        (snd (generate_response char_tokenizer one_token_generate after_greeting (long_input 1027) None))
       = Some (new_input_tokens char_tokenizer (long_input 1027) @ [33])"
proof -
  have a: "map_option length (chat_history_ids after_greeting) = Some 20"
    by (simp add: after_greeting_history)
  have b: "retained_history after_greeting (new_input_tokens char_tokenizer (long_input 1027)) = Some []"
    by (simp add: retained_history_Some after_greeting_history slice_from_nonneg)
  have c: "model_input char_tokenizer after_greeting (long_input 1027)
             = new_input_tokens char_tokenizer (long_input 1027)"
    by (simp add: model_input_eq b)
  have d: "chat_history_ids
        (snd (generate_response char_tokenizer one_token_generate after_greeting (long_input 1027) None))
       = Some (new_input_tokens char_tokenizer (long_input 1027) @ [33])"
    by (simp add: generate_response_eq c one_token_generate_def)
  show ?thesis using a b d after_greeting_history by (simp add: one_token_generate_def)
qed

section \<open>The reply (claim C5)\<close>

text \<open>
  Claim C5. When the generation call of a \<^verbatim>\<open>generate_response\<close> call returns, the
  returned text is the decoding, with \<^verbatim>\<open>skip_special_tokens=True\<close>, of the generation
  result from index \<open>length model_input\<close> on, where the model input is the retained
  history followed by the encoded new turn, as it was passed to \<^verbatim>\<open>generate\<close>. When the
  result starts with the model input, the decoded slice is exactly the continuation, so
  nothing of the model input is in it.
\<close>

theorem reply_is_decoded_continuation:
  assumes "gen (model_input tok self user_input) (generate_kwargs tok (max_length_arg given)) = Inr ids"
  shows "fst (generate_response tok gen self user_input given)
           = Inr (decode tok (drop (length (model_input tok self user_input)) ids) True)
       \<and> (\<forall>continuation. ids = model_input tok self user_input @ continuation \<longrightarrow>
            fst (generate_response tok gen self user_input given) = Inr (decode tok continuation True))"
  using assms by (simp add: generate_response_eq)

theorem reply_is_decoded_continuation_witness:
  "one_token_generate (model_input char_tokenizer AIChat_init ''hi'')
       (generate_kwargs char_tokenizer (max_length_arg None))
     = Inr (model_input char_tokenizer AIChat_init ''hi'' @ [33])
   \<and> fst (generate_response char_tokenizer one_token_generate AIChat_init ''hi'' None)
       = Inr (decode char_tokenizer [33] True)"
proof -
  have h: "one_token_generate (model_input char_tokenizer AIChat_init ''hi'')
       (generate_kwargs char_tokenizer (max_length_arg None))
     = Inr (model_input char_tokenizer AIChat_init ''hi'' @ [33])"
    by (simp add: one_token_generate_def)
  from reply_is_decoded_continuation
         [where gen = one_token_generate and tok = char_tokenizer and self = AIChat_init
            and user_input = "''hi''" and given = None, OF h] h
  show ?thesis by blast
qed

section \<open>Reset (claim C6)\<close>

text \<open>
  Claim C6. \<^verbatim>\<open>reset_chat\<close> sets the history to \<^verbatim>\<open>None\<close>; one or more resets in a row
  give the same instance as a single reset; and a \<^verbatim>\<open>generate_response\<close> call after a
  reset passes the encoded new turn alone to the model, returns what the same call returns
  on a new instance and leaves the same history as there (the attribute
  \<^verbatim>\<open>max_history_tokens\<close>, which no method writes, keeps its value).
\<close>

theorem reset_then_first_turn:
  "chat_history_ids ((reset_chat ^^ Suc n) self) = None
   \<and> (reset_chat ^^ Suc n) self = reset_chat self
   \<and> reset_chat (reset_chat self) = reset_chat self
   \<and> model_input tok (reset_chat self) user_input = new_input_tokens tok user_input
   \<and> fst (generate_response tok gen (reset_chat self) user_input given)
       = fst (generate_response tok gen AIChat_init user_input given)
   \<and> snd (generate_response tok gen (reset_chat self) user_input given)
       = (snd (generate_response tok gen AIChat_init user_input given))
            \<lparr>max_history_tokens := max_history_tokens self\<rparr>"
proof -
  have step: "(reset_chat ^^ Suc n) self = reset_chat self" for n
    by (induction n) (simp_all add: reset_chat_def)
  have fresh: "model_input tok s user_input = new_input_tokens tok user_input"
    if "chat_history_ids s = None" for s
    using that by (simp add: model_input_def manage_window_None)
  have a: "model_input tok (reset_chat self) user_input = new_input_tokens tok user_input"
    by (rule fresh) (simp add: reset_chat_def)
  have b: "model_input tok AIChat_init user_input = new_input_tokens tok user_input"
    by (rule fresh) (simp add: AIChat_init_def)
  show ?thesis
    unfolding step
    by (simp add: generate_response_eq a b split: sum.splits)
       (simp add: reset_chat_def AIChat_init_def)
qed

section \<open>When the history is cut (claim C7)\<close>

text \<open>
  Claim C7 says that the history is changed before concatenation exactly when there is a
  history and \<^verbatim>\<open>len(history) + len(new_input_tokens) > max_history_tokens\<close>. The lemmas
  \<open>history_changed_only_when_trimming\<close>, \<open>trimming_changes_history_when_input_short\<close> and
  \<open>model_input_fresh\<close> above show the direction from a change to the test, the converse
  for a new turn shorter than \<^verbatim>\<open>max_history_tokens\<close>, and the case of a new instance.
  At a new turn of exactly 1024 tokens after a history of 1000 tokens the test holds
  (2024 > 1024), yet the instance after line 65 is the instance before it, and the model
  input has 2024 tokens.
\<close>

theorem full_window_input_leaves_history:
  "trimming_occurs after_story (new_input_tokens char_tokenizer (long_input 1007))
   \<and> fst (manage_window after_story (new_input_tokens char_tokenizer (long_input 1007))) = after_story
   \<and> map_option length (chat_history_ids after_story) = Some 1000
   \<and> length (model_input char_tokenizer after_story (long_input 1007)) = 2024"
proof -
  have a: "trimming_occurs after_story (new_input_tokens char_tokenizer (long_input 1007))"
    by (simp add: trimming_occurs_def after_story_history)
  have b: "retained_history after_story (new_input_tokens char_tokenizer (long_input 1007))
       = chat_history_ids after_story"
    unfolding after_story_history by (rule cut_zero[OF after_story_history]) simp
  have c: "fst (manage_window after_story (new_input_tokens char_tokenizer (long_input 1007))) = after_story"
    by (simp add: manage_window_state b)
  have d: "length (model_input char_tokenizer after_story (long_input 1007)) = 2024"
    by (simp add: model_input_eq b after_story_history)
  show ?thesis using a c d by (simp add: after_story_history)
qed

section \<open>The arguments of the generation call (claim C8)\<close>

text \<open>
  Claim C8. Every \<^verbatim>\<open>generate_response\<close> call consults the generation capability once, at
  the model input and at these keyword arguments: \<^verbatim>\<open>max_length\<close> as given, 1000 when
  the caller gives none, temperature 0.85, top-k 50, top-p 0.92, repetition penalty 1.2,
  no-repeat n-gram size 2, minimum length 10, early stopping on, one returned sequence
  (and sampling on, length penalty 1.0, the end-of-sequence id as padding id). The
  outcome of the call is the outcome of the capability there.
\<close>

theorem generation_call_arguments:
  "generate_response tok gen self user_input given =
     (case gen (model_input tok self user_input)
             \<lparr>max_length = (case given of None \<Rightarrow> 1000 | Some m \<Rightarrow> m),
              pad_token_id = eos_token_id tok,
              no_repeat_ngram_size = 2,
              do_sample = True,
              top_k = 50,
              top_p = 0.92,
              temperature = 0.85,
              min_length = 10,
              repetition_penalty = 1.2,
              length_penalty = 1.0,
              early_stopping = True,
              num_return_sequences = 1\<rparr> of
        Inl e \<Rightarrow>
          (Inl e, self\<lparr>chat_history_ids := retained_history self (new_input_tokens tok user_input)\<rparr>)
      | Inr ids \<Rightarrow>
          (Inr (decode tok (drop (length (model_input tok self user_input)) ids) True),
           self\<lparr>chat_history_ids := Some ids\<rparr>))"
  by (simp add: generate_response_eq generate_kwargs_def max_length_arg_def)

section \<open>A new turn that fills the window alone (claim C9)\<close>

text \<open>
  Claim C9, as amended. Let there be a history (not \<^verbatim>\<open>None\<close>) and let the encoded new
  turn have at least \<^verbatim>\<open>max_history_tokens\<close> tokens, so that \<^verbatim>\<open>history_to_keep\<close> is 0 or
  negative.
  \<^item> For \<^verbatim>\<open>history_to_keep = 0\<close> and a non-empty history the cut takes place, the slice
    \<^verbatim>\<open>[:, -0:]\<close> retains the whole history and not the last 0 tokens, and the model input
    is longer than \<^verbatim>\<open>max_history_tokens\<close>.
  \<^item> For \<^verbatim>\<open>history_to_keep = 0\<close> and an empty history (line 65 followed by a failing
    generation call can leave one) no cut takes place and the model input has exactly
    \<^verbatim>\<open>max_history_tokens\<close> tokens.
  \<^item> For a negative \<^verbatim>\<open>history_to_keep\<close> the cut takes place and drops only the first
    \<^verbatim>\<open>-history_to_keep\<close> tokens; what is left differs from the last
    \<^verbatim>\<open>history_to_keep\<close> tokens (there are none) exactly when the history has more than
    \<^verbatim>\<open>-history_to_keep\<close> tokens; the model input is longer than \<^verbatim>\<open>max_history_tokens\<close>.
\<close>

theorem oversized_input_slice:
  assumes "chat_history_ids self = Some history"
      and "max_history_tokens self - int (length inputs) \<le> 0"
  shows "(max_history_tokens self - int (length inputs) = 0 \<and> history \<noteq> [] \<longrightarrow>
            trimming_occurs self inputs
            \<and> retained_history self inputs = Some history
            \<and> retained_history self inputs
                \<noteq> Some (last_tokens (max_history_tokens self - int (length inputs)) history)
            \<and> int (length (snd (manage_window self inputs))) > max_history_tokens self)
       \<and> (max_history_tokens self - int (length inputs) = 0 \<and> history = [] \<longrightarrow>
            \<not> trimming_occurs self inputs
            \<and> retained_history self inputs = Some []
            \<and> int (length (snd (manage_window self inputs))) = max_history_tokens self)
       \<and> (max_history_tokens self - int (length inputs) < 0 \<longrightarrow>
            trimming_occurs self inputs
            \<and> retained_history self inputs
                = Some (drop (nat (- (max_history_tokens self - int (length inputs)))) history)
            \<and> (retained_history self inputs
                  \<noteq> Some (last_tokens (max_history_tokens self - int (length inputs)) history)
                \<longleftrightarrow> nat (- (max_history_tokens self - int (length inputs))) < length history)
            \<and> int (length (snd (manage_window self inputs))) > max_history_tokens self)"
proof -
  have zero: "trimming_occurs self inputs
            \<and> retained_history self inputs = Some history
            \<and> retained_history self inputs
                \<noteq> Some (last_tokens (max_history_tokens self - int (length inputs)) history)
            \<and> int (length (snd (manage_window self inputs))) > max_history_tokens self"
    if k: "max_history_tokens self - int (length inputs) = 0" and ne: "history \<noteq> []"
  proof -
    have pos: "0 < int (length history)" using ne by simp
    with k have "int (length history) + int (length inputs) > max_history_tokens self"
      by linarith
    then have occ: "trimming_occurs self inputs"
      by (simp add: trimming_occurs_def assms(1))
    have kept: "retained_history self inputs = Some history"
      using k assms(1) by (simp add: cut_zero)
    have diff: "retained_history self inputs
                \<noteq> Some (last_tokens (max_history_tokens self - int (length inputs)) history)"
      using kept k ne by (simp add: last_tokens_def)
    have "int (length (snd (manage_window self inputs))) = int (length history) + int (length inputs)"
      by (simp add: manage_window_inputs kept)
    with pos k have over: "int (length (snd (manage_window self inputs))) > max_history_tokens self"
      by linarith
    show ?thesis using occ kept diff over by blast
  qed
  have empty: "\<not> trimming_occurs self inputs
            \<and> retained_history self inputs = Some []
            \<and> int (length (snd (manage_window self inputs))) = max_history_tokens self"
    if k: "max_history_tokens self - int (length inputs) = 0" and e: "history = []"
  proof -
    have occ: "\<not> trimming_occurs self inputs"
      using k e by (simp add: trimming_occurs_def assms(1))
    have kept: "retained_history self inputs = Some []"
      using k assms(1) e by (simp add: cut_zero)
    have "int (length (snd (manage_window self inputs))) = max_history_tokens self"
      using k by (simp add: manage_window_inputs kept)
    then show ?thesis using occ kept by blast
  qed
  have neg: "trimming_occurs self inputs
            \<and> retained_history self inputs
                = Some (drop (nat (- (max_history_tokens self - int (length inputs)))) history)
            \<and> (retained_history self inputs
                  \<noteq> Some (last_tokens (max_history_tokens self - int (length inputs)) history)
                \<longleftrightarrow> nat (- (max_history_tokens self - int (length inputs))) < length history)
            \<and> int (length (snd (manage_window self inputs))) > max_history_tokens self"
    if k: "max_history_tokens self - int (length inputs) < 0"
  proof -
    have "int (length history) + int (length inputs) > max_history_tokens self"
      using k by linarith
    then have occ: "trimming_occurs self inputs"
      by (simp add: trimming_occurs_def assms(1))
    have kept: "retained_history self inputs
                = Some (drop (nat (- (max_history_tokens self - int (length inputs)))) history)"
      using k assms(1) by (simp add: cut_negative)
    have none: "last_tokens (max_history_tokens self - int (length inputs)) history = []"
      using k by (simp add: last_tokens_def)
    have diff: "retained_history self inputs
                  \<noteq> Some (last_tokens (max_history_tokens self - int (length inputs)) history)
                \<longleftrightarrow> nat (- (max_history_tokens self - int (length inputs))) < length history"
      unfolding kept none by auto
    have "int (length (snd (manage_window self inputs))) \<ge> int (length inputs)"
      by (simp add: manage_window_inputs kept)
    with k have over: "int (length (snd (manage_window self inputs))) > max_history_tokens self"
      by linarith
    show ?thesis using occ kept diff over by blast
  qed
  show ?thesis using zero empty neg by blast
qed

theorem oversized_input_slice_witness:
  "chat_history_ids after_greeting = Some (new_input_tokens char_tokenizer ''hi'' @ [33])
   \<and> new_input_tokens char_tokenizer ''hi'' @ [33] \<noteq> []
   \<and> max_history_tokens after_greeting
       - int (length (new_input_tokens char_tokenizer (long_input 1012))) = - 5
   \<and> trimming_occurs after_greeting (new_input_tokens char_tokenizer (long_input 1012))
   \<and> retained_history after_greeting (new_input_tokens char_tokenizer (long_input 1012))
       = Some (drop 5 (new_input_tokens char_tokenizer ''hi'' @ [33]))
   \<and> max_history_tokens after_greeting
       < int (length (snd (manage_window after_greeting (new_input_tokens char_tokenizer (long_input 1012)))))
   \<and> max_history_tokens after_greeting
       - int (length (new_input_tokens char_tokenizer (long_input 1007))) = 0
   \<and> trimming_occurs after_greeting (new_input_tokens char_tokenizer (long_input 1007))
   \<and> retained_history after_greeting (new_input_tokens char_tokenizer (long_input 1007))
       = Some (new_input_tokens char_tokenizer ''hi'' @ [33])
   \<and> max_history_tokens after_greeting
       < int (length (snd (manage_window after_greeting (new_input_tokens char_tokenizer (long_input 1007)))))
   \<and> chat_history_ids after_failed_long_turn = Some []
   \<and> \<not> trimming_occurs after_failed_long_turn (new_input_tokens char_tokenizer (long_input 1007))
   \<and> int (length (snd (manage_window after_failed_long_turn
                          (new_input_tokens char_tokenizer (long_input 1007)))))
       = max_history_tokens after_failed_long_turn"
proof -
  have ne: "new_input_tokens char_tokenizer ''hi'' @ [33] \<noteq> []" by simp
  have k5: "max_history_tokens after_greeting
      - int (length (new_input_tokens char_tokenizer (long_input 1012))) = - 5" by simp
  have k0: "max_history_tokens after_greeting
      - int (length (new_input_tokens char_tokenizer (long_input 1007))) = 0" by simp
  have e0: "max_history_tokens after_failed_long_turn
      - int (length (new_input_tokens char_tokenizer (long_input 1007))) = 0" by simp
  have le5: "max_history_tokens after_greeting
      - int (length (new_input_tokens char_tokenizer (long_input 1012))) \<le> 0" by simp
  have le0: "max_history_tokens after_greeting
      - int (length (new_input_tokens char_tokenizer (long_input 1007))) \<le> 0" by simp
  have lee: "max_history_tokens after_failed_long_turn
      - int (length (new_input_tokens char_tokenizer (long_input 1007))) \<le> 0" by simp
  note a = oversized_input_slice[OF after_greeting_history le5]
  note b = oversized_input_slice[OF after_greeting_history le0]
  note c = oversized_input_slice[OF after_failed_long_turn_history lee]
  have a1: "trimming_occurs after_greeting (new_input_tokens char_tokenizer (long_input 1012))
     \<and> retained_history after_greeting (new_input_tokens char_tokenizer (long_input 1012))
       = Some (drop 5 (new_input_tokens char_tokenizer ''hi'' @ [33]))
     \<and> max_history_tokens after_greeting
       < int (length (snd (manage_window after_greeting (new_input_tokens char_tokenizer (long_input 1012)))))"
    using a k5 by simp
  have b1: "trimming_occurs after_greeting (new_input_tokens char_tokenizer (long_input 1007))
     \<and> retained_history after_greeting (new_input_tokens char_tokenizer (long_input 1007))
       = Some (new_input_tokens char_tokenizer ''hi'' @ [33])
     \<and> max_history_tokens after_greeting
       < int (length (snd (manage_window after_greeting (new_input_tokens char_tokenizer (long_input 1007)))))"
    using b k0 ne by blast
  have c1: "\<not> trimming_occurs after_failed_long_turn (new_input_tokens char_tokenizer (long_input 1007))
     \<and> int (length (snd (manage_window after_failed_long_turn
                          (new_input_tokens char_tokenizer (long_input 1007)))))
       = max_history_tokens after_failed_long_turn"
    using c e0 by blast
  show ?thesis
    using a1 b1 c1 k5 k0 ne after_greeting_history after_failed_long_turn_history by blast
qed

text \<open>
  The claim as written fails where the history exists and is empty: after the one-token
  first turn, a call with a new turn of 1044 tokens whose generation raises leaves the
  history cut to nothing; a following new turn of exactly 1024 tokens then passes the
  test of line 62 (1024 is not above 1024), nothing is cut, and the model input has
  1024 tokens, which is not more than \<^verbatim>\<open>max_history_tokens\<close>.
\<close>

theorem oversized_input_counterexample:
  "chat_history_ids after_greeting = Some (new_input_tokens char_tokenizer ''hi'' @ [33])
   \<and> fst (generate_response char_tokenizer failing_generate after_greeting (long_input 1027) None)
       = Inl (GenerationError ''out of memory'')
   \<and> chat_history_ids after_failed_long_turn = Some []
   \<and> max_history_tokens after_failed_long_turn
       - int (length (new_input_tokens char_tokenizer (long_input 1007))) = 0
   \<and> \<not> trimming_occurs after_failed_long_turn (new_input_tokens char_tokenizer (long_input 1007))
   \<and> model_input char_tokenizer after_failed_long_turn (long_input 1007)
       = new_input_tokens char_tokenizer (long_input 1007)
   \<and> int (length (model_input char_tokenizer after_failed_long_turn (long_input 1007)))
       = max_history_tokens after_failed_long_turn"
proof -
  have a: "fst (generate_response char_tokenizer failing_generate after_greeting (long_input 1027) None)
       = Inl (GenerationError ''out of memory'')"
    by (simp add: generate_response_eq failing_generate_def)
  have b: "\<not> trimming_occurs after_failed_long_turn (new_input_tokens char_tokenizer (long_input 1007))"
    by (simp add: trimming_occurs_def after_failed_long_turn_history)
  have c: "model_input char_tokenizer after_failed_long_turn (long_input 1007)
       = new_input_tokens char_tokenizer (long_input 1007)"
    by (simp add: model_input_eq retained_history_Some after_failed_long_turn_history)
  have d: "int (length (model_input char_tokenizer after_failed_long_turn (long_input 1007)))
       = max_history_tokens after_failed_long_turn"
    unfolding c by simp
  show ?thesis
    using a b c d after_greeting_history after_failed_long_turn_history by simp
qed

section \<open>No validation of the user's text (claim C10)\<close>

text \<open>
  Claim C10. \<^verbatim>\<open>generate_response\<close> does not inspect \<^verbatim>\<open>user_input\<close>: for every text, the
  empty and the blank ones included, it encodes \<^verbatim>\<open>"User: " + user_input + "\nAssistant:"\<close>,
  puts the encoding at the end of the model input, calls the generation capability on
  it, and raises exactly when that call raises.
\<close>

theorem no_input_validation:
  "new_input_tokens tok user_input
       = encode tok (''User: '' @ user_input @ [CHR 0x0A] @ ''Assistant:'') True
   \<and> new_input_tokens tok '''' = encode tok (''User: '' @ [CHR 0x0A] @ ''Assistant:'') True
   \<and> suffix (new_input_tokens tok user_input) (model_input tok self user_input)
   \<and> isl (fst (generate_response tok gen self user_input given))
       = isl (gen (model_input tok self user_input) (generate_kwargs tok (max_length_arg given)))
   \<and> fst (generate_response tok gen self user_input given)
       = map_sum id (\<lambda>ids. decode tok (drop (length (model_input tok self user_input)) ids) True)
           (gen (model_input tok self user_input) (generate_kwargs tok (max_length_arg given)))"
  by (simp add: new_input_tokens_def formatted_input_def generate_response_eq
        model_input_def manage_window_inputs suffix_def split: sum.splits option.splits)

end
